theory Spec2Isabelle
  imports Complex_Main "HOL-Library.Word"
begin

section \<open>Bell tone synthesis: the model\<close>

text \<open>
  The program is two Python scripts over numpy: \<^verbatim>\<open>generate_bells.py\<close> and the notebook
  variant \<^verbatim>\<open>sound_explore.py\<close>. Both define \<^verbatim>\<open>generate_bell_tone\<close> (build a decaying sum
  of sine partials and normalise it) and \<^verbatim>\<open>save_bell_sound\<close> (quantise to 16-bit PCM and
  write a WAV file).

  Numbers. A float64 is a real number or one of the IEEE specials \<open>inf\<close>, \<open>-inf\<close>, \<open>nan\<close>.
  The arithmetic on the finite values is exact real arithmetic: rounding, overflow,
  underflow and the sign of zero are not modelled. The specials are produced the way
  numpy produces them (\<open>0/0 = nan\<close>, \<open>x/0 = \<plusminus>inf\<close>) and propagate as in IEEE 754.

  Arrays. Every numpy array that the code binds to a name or returns is a cell of a
  heap, addressed by its index; an operator such as \<^verbatim>\<open>a * b\<close> allocates a new cell, an
  augmented assignment such as \<^verbatim>\<open>a *= b\<close> overwrites the cell of \<^verbatim>\<open>a\<close>. The temporaries
  of an expression are values, not cells.
\<close>

subsection \<open>float64 values\<close>

datatype npfloat = Fin real | PInf | NInf | NaN

fun fadd :: "npfloat \<Rightarrow> npfloat \<Rightarrow> npfloat" where
  "fadd (Fin x) (Fin y) = Fin (x + y)"
| "fadd NaN y = NaN"
| "fadd x NaN = NaN"
| "fadd PInf NInf = NaN"
| "fadd NInf PInf = NaN"
| "fadd PInf y = PInf"
| "fadd x PInf = PInf"
| "fadd NInf y = NInf"
| "fadd x NInf = NInf"

fun fmul :: "npfloat \<Rightarrow> npfloat \<Rightarrow> npfloat" where
  "fmul (Fin x) (Fin y) = Fin (x * y)"
| "fmul NaN y = NaN"
| "fmul x NaN = NaN"
| "fmul (Fin x) PInf = (if x = 0 then NaN else if 0 < x then PInf else NInf)"
| "fmul (Fin x) NInf = (if x = 0 then NaN else if 0 < x then NInf else PInf)"
| "fmul PInf (Fin y) = (if y = 0 then NaN else if 0 < y then PInf else NInf)"
| "fmul NInf (Fin y) = (if y = 0 then NaN else if 0 < y then NInf else PInf)"
| "fmul PInf PInf = PInf"
| "fmul PInf NInf = NInf"
| "fmul NInf PInf = NInf"
| "fmul NInf NInf = PInf"

fun fdiv :: "npfloat \<Rightarrow> npfloat \<Rightarrow> npfloat" where
  "fdiv (Fin x) (Fin y) =
     (if y \<noteq> 0 then Fin (x / y)
      else if x = 0 then NaN else if 0 < x then PInf else NInf)"
| "fdiv NaN y = NaN"
| "fdiv x NaN = NaN"
| "fdiv (Fin x) PInf = Fin 0"
| "fdiv (Fin x) NInf = Fin 0"
| "fdiv PInf (Fin y) = (if 0 \<le> y then PInf else NInf)"
| "fdiv NInf (Fin y) = (if 0 \<le> y then NInf else PInf)"
| "fdiv PInf PInf = NaN"
| "fdiv PInf NInf = NaN"
| "fdiv NInf PInf = NaN"
| "fdiv NInf NInf = NaN"

fun fabs :: "npfloat \<Rightarrow> npfloat" where
  "fabs (Fin x) = Fin \<bar>x\<bar>"
| "fabs PInf = PInf"
| "fabs NInf = PInf"
| "fabs NaN = NaN"

fun fsin :: "npfloat \<Rightarrow> npfloat" where
  "fsin (Fin x) = Fin (sin x)"
| "fsin PInf = NaN"
| "fsin NInf = NaN"
| "fsin NaN = NaN"

fun fexp :: "npfloat \<Rightarrow> npfloat" where
  "fexp (Fin x) = Fin (exp x)"
| "fexp PInf = PInf"
| "fexp NInf = Fin 0"
| "fexp NaN = NaN"

text \<open>
  The maximum of two values as \<^verbatim>\<open>np.max\<close> takes it: a
  \<open>nan\<close> wins.
\<close>

fun fmax :: "npfloat \<Rightarrow> npfloat \<Rightarrow> npfloat" where
  "fmax (Fin x) (Fin y) = Fin (max x y)"
| "fmax NaN y = NaN"
| "fmax x NaN = NaN"
| "fmax PInf y = PInf"
| "fmax x PInf = PInf"
| "fmax NInf y = y"
| "fmax x NInf = x"

text \<open>
  Python's \<^verbatim>\<open>int(x)\<close> on a float: truncation towards zero.
\<close>

definition py_int :: "real \<Rightarrow> int" where
  "py_int x = (if 0 \<le> x then \<lfloor>x\<rfloor> else \<lceil>x\<rceil>)"

subsection \<open>Arrays, errors and the world\<close>

type_synonym addr = nat

datatype ndarray = Float64 "npfloat list" | Int16 "16 word list"

text \<open>
  The exceptions the code can meet, all raised by the libraries: numpy's \<^verbatim>\<open>ValueError\<close>
  for a negative number of samples in \<^verbatim>\<open>linspace\<close>, for operands that cannot be
  broadcast together and for the maximum of an empty array; \<^verbatim>\<open>OSError\<close> for a file that
  cannot be written. \<open>NotAnArray\<close> stands for a reference that is no array of the
  expected element type, which no call of the scripts produces.
\<close>

datatype error =
  ValueError_samples
  | ValueError_broadcast
  | ValueError_empty
  | OSError
  | NotAnArray

text \<open>
  A WAV file holds its sample rate and its 16-bit samples. The world is the heap of
  arrays, the file system, the standard output and two facts about the platform: which
  paths cannot be written, and what the C cast behind \<^verbatim>\<open>np.int16\<close> yields for a float
  outside the 16-bit range (undefined in C; numpy leaves it to the platform).
\<close>

type_synonym wav = "int \<times> 16 word list"

record world =
  heap :: "ndarray list"
  files :: "string \<rightharpoonup> wav"
  stdout :: "string list"
  unwritable :: "string set"
  cast_overflow :: "npfloat \<Rightarrow> 16 word"

text \<open>
  A statement maps a world to a result, an error or a value, and the world it leaves.
  \<open>bind m (\<lambda>x. k)\<close> runs \<open>m\<close> and then \<open>k\<close> on its value; an error of \<open>m\<close> ends the run
  there, with the world as \<open>m\<close> left it.
\<close>

type_synonym 'a np = "world \<Rightarrow> (error + 'a) \<times> world"

definition raise :: "error \<Rightarrow> 'a np" where
  "raise e = Pair (Inl e)"

definition ret :: "'a \<Rightarrow> 'a np" where
  "ret x = Pair (Inr x)"

definition bind :: "'a np \<Rightarrow> ('a \<Rightarrow> 'b np) \<Rightarrow> 'b np" where
  "bind m k w = (case m w of (Inl e, w') \<Rightarrow> (Inl e, w') | (Inr x, w') \<Rightarrow> k x w')"

definition lift :: "error + 'a \<Rightarrow> 'a np" where
  "lift r = (case r of Inl e \<Rightarrow> raise e | Inr x \<Rightarrow> ret x)"

definition np_new :: "ndarray \<Rightarrow> addr np" where
  "np_new v w = (Inr (length (heap w)), w\<lparr>heap := heap w @ [v]\<rparr>)"

definition np_float64 :: "addr \<Rightarrow> npfloat list np" where
  "np_float64 a w =
     (if a < length (heap w)
      then (case heap w ! a of Float64 xs \<Rightarrow> (Inr xs, w) | Int16 ys \<Rightarrow> (Inl NotAnArray, w))
      else (Inl NotAnArray, w))"

definition np_store :: "addr \<Rightarrow> ndarray \<Rightarrow> unit np" where
  "np_store a v w =
     (if a < length (heap w) then (Inr (), w\<lparr>heap := (heap w)[a := v]\<rparr>)
      else (Inl NotAnArray, w))"

subsection \<open>The numpy operations the scripts use\<close>

text \<open>
  \<^verbatim>\<open>np.linspace(start, stop, num)\<close>: \<open>num\<close> evenly spaced values from \<open>start\<close> to \<open>stop\<close>
  inclusive; one value is \<open>start\<close>, none is the empty array, a negative \<open>num\<close> raises.
\<close>

definition linspace_values :: "real \<Rightarrow> real \<Rightarrow> nat \<Rightarrow> npfloat list" where
  "linspace_values start stop n =
     (if n = 1 then [Fin start]
      else map (\<lambda>i. Fin (start + real i * ((stop - start) / real (n - 1)))) [0..<n])"

definition np_linspace :: "real \<Rightarrow> real \<Rightarrow> int \<Rightarrow> addr np" where
  "np_linspace start stop num =
     (if num < 0 then raise ValueError_samples
      else np_new (Float64 (linspace_values start stop (nat num))))"

text \<open>
  Broadcasting an operand of shape \<open>(m,)\<close> into a destination of shape \<open>(n,)\<close>, as an
  augmented assignment does: the lengths agree, or the operand has one element.
\<close>

definition broadcast :: "nat \<Rightarrow> npfloat list \<Rightarrow> error + npfloat list" where
  "broadcast n ys =
     (if length ys = n then Inr ys
      else (case ys of [y] \<Rightarrow> Inr (replicate n y) | _ \<Rightarrow> Inl ValueError_broadcast))"

text \<open>\<open>dst = g(src)\<close> elementwise, in a new array.\<close>

definition np_map :: "(npfloat \<Rightarrow> npfloat) \<Rightarrow> addr \<Rightarrow> addr np" where
  "np_map g src = bind (np_float64 src) (\<lambda>xs. np_new (Float64 (map g xs)))"

text \<open>\<open>dst op= g(src)\<close> elementwise, in place.\<close>

definition np_inplace ::
  "(npfloat \<Rightarrow> npfloat \<Rightarrow> npfloat) \<Rightarrow> addr \<Rightarrow> (npfloat \<Rightarrow> npfloat) \<Rightarrow> addr \<Rightarrow> unit np" where
  "np_inplace oper dst g src =
     bind (np_float64 src) (\<lambda>ys.
     bind (np_float64 dst) (\<lambda>xs.
     bind (lift (broadcast (length xs) (map g ys))) (\<lambda>zs.
     np_store dst (Float64 (map2 oper xs zs)))))"

text \<open>
  The slice \<^verbatim>\<open>xs[:k]\<close>: the first \<open>k\<close> elements, all of them when there are fewer; a
  negative \<open>k\<close> counts from the end.
\<close>

definition slice_len :: "int \<Rightarrow> nat \<Rightarrow> nat" where
  "slice_len k n = (if 0 \<le> k then min (nat k) n else n - nat (- k))"

text \<open>
  \<open>dst[:k] op= src\<close> elementwise, in place: the slice is a view of
  \<open>dst\<close>.
\<close>

definition np_inplace_prefix ::
  "(npfloat \<Rightarrow> npfloat \<Rightarrow> npfloat) \<Rightarrow> addr \<Rightarrow> int \<Rightarrow> addr \<Rightarrow> unit np" where
  "np_inplace_prefix oper dst k src =
     bind (np_float64 src) (\<lambda>ys.
     bind (np_float64 dst) (\<lambda>xs.
     (let m = slice_len k (length xs) in
      bind (lift (broadcast m ys)) (\<lambda>zs.
      np_store dst (Float64 (map2 oper (take m xs) zs @ drop m xs))))))"

text \<open>\<^verbatim>\<open>np.max\<close> of an array: an empty array raises.\<close>

fun np_amax :: "npfloat list \<Rightarrow> error + npfloat" where
  "np_amax [] = Inl ValueError_empty"
| "np_amax (x # xs) = Inr (fold fmax xs x)"

text \<open>\<^verbatim>\<open>np.max(np.abs(a))\<close>.\<close>

definition np_peak :: "addr \<Rightarrow> npfloat np" where
  "np_peak a = bind (np_float64 a) (\<lambda>xs. lift (np_amax (map fabs xs)))"

text \<open>
  The cast of a float to int16: truncation towards zero when the result is in range,
  the platform's answer otherwise.
\<close>

definition cast_int16 :: "(npfloat \<Rightarrow> 16 word) \<Rightarrow> npfloat \<Rightarrow> 16 word" where
  "cast_int16 overflow x =
     (case x of
        Fin r \<Rightarrow>
          (if - 32768 \<le> py_int r \<and> py_int r \<le> 32767 then word_of_int (py_int r)
           else overflow x)
      | _ \<Rightarrow> overflow x)"

text \<open>\<^verbatim>\<open>np.int16(g(src))\<close>: a new array of 16-bit integers.\<close>

definition np_int16 :: "(npfloat \<Rightarrow> npfloat) \<Rightarrow> addr \<Rightarrow> addr np" where
  "np_int16 g src =
     bind (np_float64 src) (\<lambda>xs w.
     np_new (Int16 (map (\<lambda>x. cast_int16 (cast_overflow w) (g x)) xs)) w)"

text \<open>
  \<^verbatim>\<open>wavfile.write(filename, rate, data)\<close> for 16-bit data.
\<close>

definition wavfile_write :: "string \<Rightarrow> int \<Rightarrow> addr \<Rightarrow> unit np" where
  "wavfile_write filename rate data w =
     (if filename \<in> unwritable w then (Inl OSError, w)
      else if data < length (heap w)
      then (case heap w ! data of
              Int16 ys \<Rightarrow> (Inr (), w\<lparr>files := (files w)(filename \<mapsto> (rate, ys))\<rparr>)
            | Float64 xs \<Rightarrow> (Inl NotAnArray, w))
      else (Inl NotAnArray, w))"

definition print :: "string \<Rightarrow> unit np" where
  "print s w = (Inr (), w\<lparr>stdout := stdout w @ [s]\<rparr>)"

subsection \<open>\<^verbatim>\<open>generate_bells.py\<close>\<close>

text \<open>
  One partial of the tone at time \<open>\<tau>\<close>: \<^verbatim>\<open>w * np.sin(2 *
  np.pi * fr * t)\<close>.
\<close>

definition partial :: "real \<Rightarrow> real \<Rightarrow> npfloat \<Rightarrow> npfloat" where
  "partial w fr \<tau> = fmul (Fin w) (fsin (fmul (Fin (2 * pi * fr)) \<tau>))"

text \<open>
  \<^verbatim>\<open>generate_bell_tone\<close>, lines 26 to 35: the time array and the sum of the five
  partials, built in place in \<open>signal\<close>. The value is the pair of the two arrays.
\<close>

definition bell_harmonics :: "real \<Rightarrow> real \<Rightarrow> int \<Rightarrow> (addr \<times> addr) np" where
  "bell_harmonics duration_sec frequency sample_rate =
     bind (np_linspace 0 duration_sec (py_int (real_of_int sample_rate * duration_sec))) (\<lambda>t.
     bind (np_map (\<lambda>\<tau>. fsin (fmul (Fin (2 * pi * frequency)) \<tau>)) t) (\<lambda>signal.
     bind (np_inplace fadd signal (partial 0.5 (frequency * 2.0)) t) (\<lambda>_.
     bind (np_inplace fadd signal (partial 0.3 (frequency * 3.0)) t) (\<lambda>_.
     bind (np_inplace fadd signal (partial 0.2 (frequency * 4.5)) t) (\<lambda>_.
     bind (np_inplace fadd signal (partial 0.15 (frequency * 5.4)) t) (\<lambda>_.
     ret (t, signal)))))))"

text \<open>
  Lines 37 to 44, the same in both scripts: the exponential decay, then the linear
  attack ramp over the first \<^verbatim>\<open>int(0.01 * sample_rate)\<close> samples, both in place.
\<close>

definition apply_envelopes :: "real \<Rightarrow> int \<Rightarrow> addr \<Rightarrow> addr \<Rightarrow> unit np" where
  "apply_envelopes duration_sec sample_rate t signal =
     bind (np_map (\<lambda>\<tau>. fexp (fdiv (fmul (Fin (- 3.0)) \<tau>) (Fin duration_sec))) t) (\<lambda>decay.
     bind (np_inplace fmul signal id decay) (\<lambda>_.
     (let attack_samples = py_int (0.01 * real_of_int sample_rate) in
      bind (np_linspace 0 1 attack_samples) (\<lambda>attack_envelope.
      np_inplace_prefix fmul signal attack_samples attack_envelope))))"

text \<open>
  Line 47, the same in both scripts:
  \<^verbatim>\<open>signal = signal / np.max(np.abs(signal)) * 0.8\<close>, a new array.
\<close>

definition normalize_peak :: "addr \<Rightarrow> addr np" where
  "normalize_peak signal =
     bind (np_peak signal) (\<lambda>peak.
     np_map (\<lambda>x. fmul (fdiv x peak) (Fin 0.8)) signal)"

text \<open>The signal after the envelopes and before the normalisation: lines 26 to 44.\<close>

definition shaped_signal :: "real \<Rightarrow> real \<Rightarrow> int \<Rightarrow> addr np" where
  "shaped_signal duration_sec frequency sample_rate =
     bind (bell_harmonics duration_sec frequency sample_rate) (\<lambda>(t, signal).
     bind (apply_envelopes duration_sec sample_rate t signal) (\<lambda>_.
     ret signal))"

definition generate_bell_tone :: "real \<Rightarrow> real \<Rightarrow> int \<Rightarrow> addr np" where
  "generate_bell_tone duration_sec frequency sample_rate =
     bind (shaped_signal duration_sec frequency sample_rate) normalize_peak"

text \<open>
  \<^verbatim>\<open>save_bell_sound\<close>: \<^verbatim>\<open>np.int16(signal * 32767)\<close>, \<^verbatim>\<open>wavfile.write\<close>, and a line on the
  standard output, which starts with a check mark (three bytes in UTF-8).
\<close>

definition save_bell_sound :: "string \<Rightarrow> addr \<Rightarrow> int \<Rightarrow> unit np" where
  "save_bell_sound filename signal sample_rate =
     bind (np_int16 (\<lambda>x. fmul x (Fin 32767)) signal) (\<lambda>audio_int16.
     bind (wavfile_write filename sample_rate audio_int16) (\<lambda>_.
     print ([CHR 0xE2, CHR 0x9C, CHR 0x93] @ '' Generated: '' @ filename)))"

subsection \<open>\<^verbatim>\<open>sound_explore.py\<close>\<close>

text \<open>
  The notebook's \<^verbatim>\<open>generate_bell_tone\<close>, lines 41 to 55: other weights for the two
  inharmonic partials, and three more partials when the frequency is below 400 Hz.
\<close>

definition explore_harmonics :: "real \<Rightarrow> real \<Rightarrow> int \<Rightarrow> (addr \<times> addr) np" where
  "explore_harmonics duration_sec frequency sample_rate =
     bind (np_linspace 0 duration_sec (py_int (real_of_int sample_rate * duration_sec))) (\<lambda>t.
     bind (np_map (\<lambda>\<tau>. fsin (fmul (Fin (2 * pi * frequency)) \<tau>)) t) (\<lambda>signal.
     bind (np_inplace fadd signal (partial 0.5 (frequency * 2.0)) t) (\<lambda>_.
     bind (np_inplace fadd signal (partial 0.3 (frequency * 3.0)) t) (\<lambda>_.
     bind (np_inplace fadd signal (partial 0.15 (frequency * 4.25)) t) (\<lambda>_.
     bind (np_inplace fadd signal (partial 0.125 (frequency * 5.125)) t) (\<lambda>_.
     bind (if frequency < 400 then
        bind (np_inplace fadd signal (partial 0.05 (frequency * 4.0)) t) (\<lambda>_.
        bind (np_inplace fadd signal (partial 0.025 (frequency * 6.0)) t) (\<lambda>_.
        np_inplace fadd signal (partial 0.05 (frequency * 8.5)) t))
      else ret ()) (\<lambda>_.
     ret (t, signal))))))))"

definition generate_bell_tone_explore :: "real \<Rightarrow> real \<Rightarrow> int \<Rightarrow> addr np" where
  "generate_bell_tone_explore duration_sec frequency sample_rate =
     bind (explore_harmonics duration_sec frequency sample_rate) (\<lambda>(t, signal).
     bind (apply_envelopes duration_sec sample_rate t signal) (\<lambda>_.
     normalize_peak signal))"

text \<open>
  What a caller holds after a call: the error, or the contents of the array returned.
\<close>

definition returned :: "(error + addr) \<times> world \<Rightarrow> error + npfloat list" where
  "returned rw = (case rw of (Inl e, w) \<Rightarrow> Inl e | (Inr a, w) \<Rightarrow> fst (np_float64 a w))"

text \<open>
  A world with no arrays, no files and no output, where every path can be written.
\<close>

definition empty_world :: "(npfloat \<Rightarrow> 16 word) \<Rightarrow> world" where
  "empty_world overflow =
     \<lparr>heap = [], files = Map.empty, stdout = [], unwritable = {}, cast_overflow = overflow\<rparr>"

section \<open>The values the code computes\<close>

text \<open>
  The contents of the arrays of \<^verbatim>\<open>generate_bell_tone\<close> as functions of its arguments. The
  lemmas of the next section prove that the code computes them.
\<close>

text \<open>
  The sum of the five partials of \<^verbatim>\<open>generate_bells.py\<close> at time
  \<open>\<tau>\<close>, in the order the code adds them.
\<close>

definition bell_sum :: "real \<Rightarrow> npfloat \<Rightarrow> npfloat" where
  "bell_sum f \<tau> =
     fadd (fadd (fadd (fadd (fsin (fmul (Fin (2 * pi * f)) \<tau>))
       (partial 0.5 (f * 2.0) \<tau>)) (partial 0.3 (f * 3.0) \<tau>))
       (partial 0.2 (f * 4.5) \<tau>)) (partial 0.15 (f * 5.4) \<tau>)"

text \<open>
  The decay envelope at time \<open>\<tau>\<close>: \<^verbatim>\<open>np.exp(-3.0 * t /
  duration_sec)\<close>.
\<close>

definition decay_at :: "real \<Rightarrow> npfloat \<Rightarrow> npfloat" where
  "decay_at d \<tau> = fexp (fdiv (fmul (Fin (- 3.0)) \<tau>) (Fin d))"

text \<open>
  A signal after the attack: its first \<open>a\<close> samples times the ramp from 0 to 1.
\<close>

definition ramp :: "nat \<Rightarrow> npfloat list \<Rightarrow> npfloat list" where
  "ramp a xs = map2 fmul (take a xs) (linspace_values 0 1 a) @ drop a xs"

text \<open>The contents of the time array \<open>t\<close>.\<close>

definition time_values :: "real \<Rightarrow> int \<Rightarrow> npfloat list" where
  "time_values d sr = linspace_values 0 d (nat (py_int (real_of_int sr * d)))"

text \<open>The contents of \<open>signal\<close> after the envelopes.\<close>

definition shaped_values :: "real \<Rightarrow> real \<Rightarrow> int \<Rightarrow> npfloat list" where
  "shaped_values d f sr =
     ramp (nat (py_int (0.01 * real_of_int sr)))
       (map (\<lambda>\<tau>. fmul (bell_sum f \<tau>) (decay_at d \<tau>)) (time_values d sr))"

text \<open>Line 47 on the contents of an array.\<close>

definition normalized_values :: "npfloat list \<Rightarrow> error + npfloat list" where
  "normalized_values xs =
     (case np_amax (map fabs xs) of
        Inl e \<Rightarrow> Inl e
      | Inr peak \<Rightarrow> Inr (map (\<lambda>x. fmul (fdiv x peak) (Fin 0.8)) xs))"

text \<open>
  What the lines before the normalisation leave in \<open>signal\<close>, or the error they raise, as
  a function of the arguments alone.
\<close>

definition shaped_result :: "real \<Rightarrow> real \<Rightarrow> int \<Rightarrow> error + npfloat list" where
  "shaped_result d f sr =
     (let n = py_int (real_of_int sr * d); a = py_int (0.01 * real_of_int sr) in
      if n < 0 \<or> a < 0 then Inl ValueError_samples
      else if n < a \<and> a \<noteq> 1 then Inl ValueError_broadcast
      else Inr (shaped_values d f sr))"

text \<open>
  What \<^verbatim>\<open>generate_bell_tone\<close> hands to its caller, as a function of
  its arguments alone.
\<close>

definition tone_result :: "real \<Rightarrow> real \<Rightarrow> int \<Rightarrow> error + npfloat list" where
  "tone_result d f sr =
     (case shaped_result d f sr of Inl e \<Rightarrow> Inl e | Inr xs \<Rightarrow> normalized_values xs)"

text \<open>
  The second world differs from the first by new arrays only: the arrays that were there,
  the files, the output and the platform are the same.
\<close>

definition untouched :: "world \<Rightarrow> world \<Rightarrow> bool" where
  "untouched w w' \<longleftrightarrow>
     take (length (heap w)) (heap w') = heap w \<and> files w' = files w \<and> stdout w' = stdout w \<and>
     unwritable w' = unwritable w \<and> cast_overflow w' = cast_overflow w"

text \<open>A world that holds one array of three samples, for the examples.\<close>

definition demo_world :: world where
  "demo_world = (empty_world (\<lambda>x. 0))\<lparr>heap := [Float64 [Fin 1, Fin 0.5, Fin (- 0.8)]]\<rparr>"

text \<open>
  The sum of the five partials of \<^verbatim>\<open>sound_explore.py\<close> (lines 44 to 49) at time \<open>\<tau>\<close>, in
  the order the code adds them.
\<close>

definition explore_sum :: "real \<Rightarrow> npfloat \<Rightarrow> npfloat" where
  "explore_sum f \<tau> =
     fadd (fadd (fadd (fadd (fsin (fmul (Fin (2 * pi * f)) \<tau>))
       (partial 0.5 (f * 2.0) \<tau>)) (partial 0.3 (f * 3.0) \<tau>))
       (partial 0.15 (f * 4.25) \<tau>)) (partial 0.125 (f * 5.125) \<tau>)"

text \<open>
  The specification's words for the low register: below 400 Hz, three more partials
  with the weights 0.05, 0.025, 0.05 at 4, 6 and 8.5 times the fundamental; none from
  400 Hz on. A partial is a pair of its weight and its multiple.
\<close>

definition spec_low_partials :: "real \<Rightarrow> (real \<times> real) list" where
  "spec_low_partials frequency =
     (if frequency < 400 then [(0.05, 4), (0.025, 6), (0.05, 8.5)] else [])"

text \<open>
  Adding a table of partials to a sample at time \<open>\<tau>\<close>, one after the other.
\<close>

definition add_partials :: "(real \<times> real) list \<Rightarrow> real \<Rightarrow> npfloat \<Rightarrow> npfloat \<Rightarrow> npfloat" where
  "add_partials ps f \<tau> x = foldl (\<lambda>acc (weight, multiple). fadd acc (partial weight (f * multiple) \<tau>)) x ps"

section \<open>Running the statements\<close>

lemma raise_run [simp]: "raise e w = (Inl e, w)"
  by (simp add: raise_def)

lemma ret_run [simp]: "ret x w = (Inr x, w)"
  by (simp add: ret_def)

lemma bind_run [simp]:
  "bind m k w = (case m w of (Inl e, w') \<Rightarrow> (Inl e, w') | (Inr x, w') \<Rightarrow> k x w')"
  by (simp add: bind_def)

lemma lift_Inr [simp]: "lift (Inr x) w = (Inr x, w)"
  by (simp add: lift_def)

lemma lift_Inl [simp]: "lift (Inl e) w = (Inl e, w)"
  by (simp add: lift_def)

lemma np_new_run [simp]:
  "np_new v w = (Inr (length (heap w)), w\<lparr>heap := heap w @ [v]\<rparr>)"
  by (simp add: np_new_def)

lemma np_float64_run:
  "a < length (heap w) \<Longrightarrow> heap w ! a = Float64 xs \<Longrightarrow> np_float64 a w = (Inr xs, w)"
  by (simp add: np_float64_def)

lemma np_map_run:
  "a < length (heap w) \<Longrightarrow> heap w ! a = Float64 xs \<Longrightarrow>
   np_map g a w = (Inr (length (heap w)), w\<lparr>heap := heap w @ [Float64 (map g xs)]\<rparr>)"
  by (simp add: np_map_def np_float64_run)

lemma np_inplace_run:
  "dst < length (heap w) \<Longrightarrow> heap w ! dst = Float64 xs \<Longrightarrow>
   src < length (heap w) \<Longrightarrow> heap w ! src = Float64 ys \<Longrightarrow> length ys = length xs \<Longrightarrow>
   np_inplace oper dst g src w =
     (Inr (), w\<lparr>heap := (heap w)[dst := Float64 (map2 oper xs (map g ys))]\<rparr>)"
  by (simp add: np_inplace_def np_float64_run broadcast_def np_store_def)

lemma np_linspace_run:
  "0 \<le> n \<Longrightarrow> np_linspace a b n w =
     (Inr (length (heap w)), w\<lparr>heap := heap w @ [Float64 (linspace_values a b (nat n))]\<rparr>)"
  by (simp add: np_linspace_def)

lemma np_linspace_neg: "n < 0 \<Longrightarrow> np_linspace a b n w = (Inl ValueError_samples, w)"
  by (simp add: np_linspace_def)

lemma length_linspace_values [simp]: "length (linspace_values a b n) = n"
  by (simp add: linspace_values_def)

lemma map2_map_same: "map2 h (map f xs) (map g xs) = map (\<lambda>x. h (f x) (g x)) xs"
  by (induction xs) auto

lemma bell_harmonics_run:
  assumes "0 \<le> py_int (real_of_int sr * d)"
  shows "bell_harmonics d f sr w =
     (Inr (length (heap w), Suc (length (heap w))),
      w\<lparr>heap := heap w @ [Float64 (linspace_values 0 d (nat (py_int (real_of_int sr * d)))),
           Float64 (map (bell_sum f) (linspace_values 0 d (nat (py_int (real_of_int sr * d)))))]\<rparr>)"
  using assms
  apply (simp add: bell_harmonics_def np_linspace_run np_map_run np_inplace_run nth_append
     map2_map_same bell_sum_def [abs_def] list_update_append)
  done

lemma np_inplace_prefix_run:
  "dst < length (heap w) \<Longrightarrow> heap w ! dst = Float64 xs \<Longrightarrow>
   src < length (heap w) \<Longrightarrow> heap w ! src = Float64 ys \<Longrightarrow>
   length ys = slice_len k (length xs) \<Longrightarrow>
   np_inplace_prefix oper dst k src w =
     (Inr (), w\<lparr>heap := (heap w)[dst := Float64 (map2 oper (take (length ys) xs) ys @ drop (length ys) xs)]\<rparr>)"
  by (simp add: np_inplace_prefix_def np_float64_run broadcast_def np_store_def Let_def)

lemma np_inplace_prefix_fail:
  "dst < length (heap w) \<Longrightarrow> heap w ! dst = Float64 xs \<Longrightarrow>
   src < length (heap w) \<Longrightarrow> heap w ! src = Float64 ys \<Longrightarrow>
   length ys \<noteq> slice_len k (length xs) \<Longrightarrow> length ys \<noteq> 1 \<Longrightarrow>
   np_inplace_prefix oper dst k src w = (Inl ValueError_broadcast, w)"
  by (cases ys; cases "tl ys") (auto simp add: np_inplace_prefix_def np_float64_run broadcast_def Let_def)

lemma apply_envelopes_run:
  assumes "t < length (heap w)" "heap w ! t = Float64 tv"
    and "s < length (heap w)" "heap w ! s = Float64 xs" "length xs = length tv"
    and "0 \<le> py_int (0.01 * real_of_int sr)" "nat (py_int (0.01 * real_of_int sr)) \<le> length xs"
  shows "apply_envelopes d sr t s w =
     (Inr (), w\<lparr>heap := (heap w)[s := Float64 (ramp (nat (py_int (0.01 * real_of_int sr))) (map2 fmul xs (map (decay_at d) tv)))]
        @ [Float64 (map (decay_at d) tv), Float64 (linspace_values 0 1 (nat (py_int (0.01 * real_of_int sr))))]\<rparr>)"
  using assms
  apply (simp add: apply_envelopes_def np_map_run decay_at_def [abs_def] Let_def)
  apply (subst np_inplace_run [where xs = xs and ys = "map (decay_at d) tv"])
  apply (simp_all add: nth_append decay_at_def [abs_def] np_linspace_run)
  apply (subst np_inplace_prefix_run [where xs = "map2 fmul xs (map (decay_at d) tv)" and ys = "linspace_values 0 1 (nat (py_int (0.01 * real_of_int sr)))"])
  apply (simp_all add: nth_append decay_at_def [abs_def] slice_len_def ramp_def list_update_append)
  done

lemma apply_envelopes_neg:
  assumes "t < length (heap w)" "heap w ! t = Float64 tv"
    and "s < length (heap w)" "heap w ! s = Float64 xs" "length xs = length tv"
    and "py_int (0.01 * real_of_int sr) < 0"
  shows "apply_envelopes d sr t s w =
     (Inl ValueError_samples, w\<lparr>heap := (heap w)[s := Float64 (map2 fmul xs (map (decay_at d) tv))]
        @ [Float64 (map (decay_at d) tv)]\<rparr>)"
  using assms
  apply (simp add: apply_envelopes_def np_map_run decay_at_def [abs_def] Let_def)
  apply (subst np_inplace_run [where xs = xs and ys = "map (decay_at d) tv"])
  apply (simp_all add: nth_append decay_at_def [abs_def] np_linspace_neg list_update_append)
  done

lemma apply_envelopes_fail:
  assumes "t < length (heap w)" "heap w ! t = Float64 tv"
    and "s < length (heap w)" "heap w ! s = Float64 xs" "length xs = length tv"
    and "length xs < nat (py_int (0.01 * real_of_int sr))" "py_int (0.01 * real_of_int sr) \<noteq> 1"
  shows "apply_envelopes d sr t s w =
     (Inl ValueError_broadcast, w\<lparr>heap := (heap w)[s := Float64 (map2 fmul xs (map (decay_at d) tv))]
        @ [Float64 (map (decay_at d) tv), Float64 (linspace_values 0 1 (nat (py_int (0.01 * real_of_int sr))))]\<rparr>)"
  using assms
  apply (simp add: apply_envelopes_def np_map_run decay_at_def [abs_def] Let_def)
  apply (subst np_inplace_run [where xs = xs and ys = "map (decay_at d) tv"])
  apply (simp_all add: nth_append decay_at_def [abs_def] np_linspace_run)
  apply (subst np_inplace_prefix_fail [where xs = "map2 fmul xs (map (decay_at d) tv)" and ys = "linspace_values 0 1 (nat (py_int (0.01 * real_of_int sr)))"])
  apply (simp_all add: nth_append decay_at_def [abs_def] slice_len_def ramp_def list_update_append)
  apply linarith
  done

lemma np_peak_run:
  "a < length (heap w) \<Longrightarrow> heap w ! a = Float64 xs \<Longrightarrow>
   np_peak a w = (np_amax (map fabs xs), w)"
  by (cases "np_amax (map fabs xs)") (simp_all add: np_peak_def np_float64_run)

lemma normalize_run:
  "a < length (heap w) \<Longrightarrow> heap w ! a = Float64 xs \<Longrightarrow> np_amax (map fabs xs) = Inr peak \<Longrightarrow>
   normalize_peak a w = (Inr (length (heap w)),
      w\<lparr>heap := heap w @ [Float64 (map (\<lambda>x. fmul (fdiv x peak) (Fin 0.8)) xs)]\<rparr>)"
  by (simp add: normalize_peak_def np_peak_run np_map_run)

lemma normalize_empty:
  "a < length (heap w) \<Longrightarrow> heap w ! a = Float64 [] \<Longrightarrow>
   normalize_peak a w = (Inl ValueError_empty, w)"
  by (simp add: normalize_peak_def np_peak_run)

lemma length_time_values [simp]: "length (time_values d sr) = nat (py_int (real_of_int sr * d))"
  by (simp add: time_values_def)

lemma shaped_signal_neg:
  assumes "py_int (real_of_int sr * d) < 0"
  shows "shaped_signal d f sr w = (Inl ValueError_samples, w)"
  using assms by (simp add: shaped_signal_def bell_harmonics_def np_linspace_neg)

lemma shaped_signal_run:
  assumes "0 \<le> py_int (real_of_int sr * d)" "0 \<le> py_int (0.01 * real_of_int sr)"
    and "py_int (0.01 * real_of_int sr) \<le> py_int (real_of_int sr * d)"
  shows "shaped_signal d f sr w =
     (Inr (Suc (length (heap w))),
      w\<lparr>heap := heap w @ [Float64 (time_values d sr), Float64 (shaped_values d f sr),
        Float64 (map (decay_at d) (time_values d sr)),
        Float64 (linspace_values 0 1 (nat (py_int (0.01 * real_of_int sr))))]\<rparr>)"
  using assms
  apply (simp add: shaped_signal_def bell_harmonics_run)
  apply (subst apply_envelopes_run [where tv = "time_values d sr" and xs = "map (bell_sum f) (time_values d sr)"])
  apply (simp_all add: nth_append time_values_def shaped_values_def map2_map_same list_update_append)
  done

lemma shaped_signal_neg_attack:
  assumes "0 \<le> py_int (real_of_int sr * d)" "py_int (0.01 * real_of_int sr) < 0"
  shows "shaped_signal d f sr w =
     (Inl ValueError_samples,
      w\<lparr>heap := heap w @ [Float64 (time_values d sr),
        Float64 (map (\<lambda>\<tau>. fmul (bell_sum f \<tau>) (decay_at d \<tau>)) (time_values d sr)),
        Float64 (map (decay_at d) (time_values d sr))]\<rparr>)"
  using assms
  apply (simp add: shaped_signal_def bell_harmonics_run)
  apply (subst apply_envelopes_neg [where tv = "time_values d sr" and xs = "map (bell_sum f) (time_values d sr)"])
  apply (simp_all add: nth_append time_values_def map2_map_same list_update_append)
  done

lemma shaped_signal_fail:
  assumes "0 \<le> py_int (real_of_int sr * d)"
    and "py_int (real_of_int sr * d) < py_int (0.01 * real_of_int sr)"
    and "py_int (0.01 * real_of_int sr) \<noteq> 1"
  shows "shaped_signal d f sr w =
     (Inl ValueError_broadcast,
      w\<lparr>heap := heap w @ [Float64 (time_values d sr),
        Float64 (map (\<lambda>\<tau>. fmul (bell_sum f \<tau>) (decay_at d \<tau>)) (time_values d sr)),
        Float64 (map (decay_at d) (time_values d sr)),
        Float64 (linspace_values 0 1 (nat (py_int (0.01 * real_of_int sr))))]\<rparr>)"
  using assms
  apply (simp add: shaped_signal_def bell_harmonics_run)
  apply (subst apply_envelopes_fail [where tv = "time_values d sr" and xs = "map (bell_sum f) (time_values d sr)"])
  apply (simp_all add: nth_append time_values_def map2_map_same list_update_append)
  done

lemma ramp_Nil [simp]: "ramp a [] = []"
  by (simp add: ramp_def)

lemma length_ramp [simp]: "length (ramp a xs) = length xs"
  by (simp add: ramp_def)

lemma length_shaped_values [simp]:
  "length (shaped_values d f sr) = nat (py_int (real_of_int sr * d))"
  by (simp add: shaped_values_def)

lemma shaped_signal_one:
  assumes "py_int (real_of_int sr * d) = 0" "py_int (0.01 * real_of_int sr) = 1"
  shows "shaped_signal d f sr w =
     (Inr (Suc (length (heap w))),
      w\<lparr>heap := heap w @ [Float64 [], Float64 [], Float64 [], Float64 [Fin 0]]\<rparr>)"
  using assms
  apply (simp add: shaped_signal_def bell_harmonics_run)
  apply (simp add: apply_envelopes_def np_map_run nth_append linspace_values_def np_inplace_run
      list_update_append np_linspace_run np_inplace_prefix_def np_float64_run slice_len_def
      broadcast_def np_store_def)
  done

lemma normalize_returned:
  "a < length (heap w) \<Longrightarrow> heap w ! a = Float64 xs \<Longrightarrow>
   returned (normalize_peak a w) = normalized_values xs"
  by (cases "np_amax (map fabs xs)")
     (simp_all add: normalize_peak_def np_peak_run np_map_run returned_def normalized_values_def
        np_float64_run)

lemma untouched_refl [simp]: "untouched w w"
  by (simp add: untouched_def)

lemma untouched_append [simp]: "untouched w (w\<lparr>heap := heap w @ cells\<rparr>)"
  by (simp add: untouched_def)

lemma normalize_grows:
  "a < length (heap w) \<Longrightarrow> heap w ! a = Float64 xs \<Longrightarrow>
   \<exists>cells. snd (normalize_peak a w) = w\<lparr>heap := heap w @ cells\<rparr>"
proof (cases "np_amax (map fabs xs)")
  case (Inl e)
  assume "a < length (heap w)" "heap w ! a = Float64 xs"
  with Inl have "snd (normalize_peak a w) = w\<lparr>heap := heap w @ []\<rparr>"
    by (simp add: normalize_peak_def np_peak_run)
  then show ?thesis by blast
next
  case (Inr peak)
  assume "a < length (heap w)" "heap w ! a = Float64 xs"
  with Inr have "snd (normalize_peak a w) =
      w\<lparr>heap := heap w @ [Float64 (map (\<lambda>x. fmul (fdiv x peak) (Fin 0.8)) xs)]\<rparr>"
    by (simp add: normalize_run)
  then show ?thesis by blast
qed

lemma returned_Inl [simp]: "returned (Inl e, w) = Inl e"
  by (simp add: returned_def)

lemma returned_generate_bell_tone:
  "returned (generate_bell_tone d f sr w) = tone_result d f sr"
proof -
  let ?n = "py_int (real_of_int sr * d)" and ?a = "py_int (0.01 * real_of_int sr)"
  consider "?n < 0" | "0 \<le> ?n" "?a < 0" | "0 \<le> ?n" "0 \<le> ?a" "?n < ?a" "?a \<noteq> 1"
    | "?n = 0" "?a = 1" | "0 \<le> ?n" "0 \<le> ?a" "?a \<le> ?n"
    by linarith
  then show ?thesis
  proof cases
    case 1
    then show ?thesis
      by (simp add: generate_bell_tone_def shaped_signal_neg tone_result_def shaped_result_def)
  next
    case 2
    then show ?thesis
      by (simp add: generate_bell_tone_def shaped_signal_neg_attack tone_result_def shaped_result_def)
  next
    case 3
    then show ?thesis
      by (simp add: generate_bell_tone_def shaped_signal_fail tone_result_def shaped_result_def)
  next
    case 4
    then show ?thesis
      by (simp add: generate_bell_tone_def shaped_signal_one tone_result_def shaped_result_def
          normalize_returned nth_append shaped_values_def time_values_def linspace_values_def)
  next
    case 5
    then show ?thesis
      by (simp add: generate_bell_tone_def shaped_signal_run tone_result_def shaped_result_def
          normalize_returned nth_append)
  qed
qed

lemma generate_bell_tone_untouched:
  "untouched w (snd (generate_bell_tone d f sr w))"
proof -
  let ?n = "py_int (real_of_int sr * d)" and ?a = "py_int (0.01 * real_of_int sr)"
  consider "?n < 0" | "0 \<le> ?n" "?a < 0" | "0 \<le> ?n" "0 \<le> ?a" "?n < ?a" "?a \<noteq> 1"
    | "?n = 0" "?a = 1" | "0 \<le> ?n" "0 \<le> ?a" "?a \<le> ?n"
    by linarith
  then show ?thesis
  proof cases
    case 1
    then show ?thesis
      by (simp add: generate_bell_tone_def shaped_signal_neg)
  next
    case 2
    then show ?thesis
      by (simp add: generate_bell_tone_def shaped_signal_neg_attack)
  next
    case 3
    then show ?thesis
      by (simp add: generate_bell_tone_def shaped_signal_fail)
  next
    case 4
    let ?w = "w\<lparr>heap := heap w @ [Float64 [], Float64 [], Float64 [], Float64 [Fin 0]]\<rparr>"
    obtain cells where "snd (normalize_peak (Suc (length (heap w))) ?w) = ?w\<lparr>heap := heap ?w @ cells\<rparr>"
      using normalize_grows [of "Suc (length (heap w))" ?w "[]"] by (auto simp add: nth_append)
    with 4 show ?thesis
      by (simp add: generate_bell_tone_def shaped_signal_one)
  next
    case 5
    let ?w = "w\<lparr>heap := heap w @ [Float64 (time_values d sr), Float64 (shaped_values d f sr),
        Float64 (map (decay_at d) (time_values d sr)),
        Float64 (linspace_values 0 1 (nat (py_int (0.01 * real_of_int sr))))]\<rparr>"
    obtain cells where "snd (normalize_peak (Suc (length (heap w))) ?w) = ?w\<lparr>heap := heap ?w @ cells\<rparr>"
      using normalize_grows [of "Suc (length (heap w))" ?w "shaped_values d f sr"]
      by (auto simp add: nth_append)
    with 5 show ?thesis
      by (simp add: generate_bell_tone_def shaped_signal_run)
  qed
qed

subsection \<open>\<^verbatim>\<open>save_bell_sound\<close>\<close>

lemma np_int16_run:
  "a < length (heap w) \<Longrightarrow> heap w ! a = Float64 xs \<Longrightarrow>
   np_int16 g a w = (Inr (length (heap w)),
     w\<lparr>heap := heap w @ [Int16 (map (\<lambda>x. cast_int16 (cast_overflow w) (g x)) xs)]\<rparr>)"
  by (simp add: np_int16_def np_float64_run)

lemma np_int16_fail:
  "\<not> (a < length (heap w) \<and> (\<exists>xs. heap w ! a = Float64 xs)) \<Longrightarrow>
   np_int16 g a w = (Inl NotAnArray, w)"
  by (auto simp add: np_int16_def np_float64_def split: ndarray.splits)

lemma save_bell_sound_run:
  assumes "signal < length (heap w)" "heap w ! signal = Float64 xs" "filename \<notin> unwritable w"
  shows "save_bell_sound filename signal sample_rate w =
     (Inr (), w\<lparr>heap := heap w @ [Int16 (map (\<lambda>x. cast_int16 (cast_overflow w) (fmul x (Fin 32767))) xs)],
        files := (files w)(filename \<mapsto> (sample_rate, map (\<lambda>x. cast_int16 (cast_overflow w) (fmul x (Fin 32767))) xs)),
        stdout := stdout w @ [[CHR 0xE2, CHR 0x9C, CHR 0x93] @ '' Generated: '' @ filename]\<rparr>)"
  using assms
  by (simp add: save_bell_sound_def np_int16_run wavfile_write_def print_def)

lemma save_bell_sound_oserror:
  assumes "signal < length (heap w)" "heap w ! signal = Float64 xs" "filename \<in> unwritable w"
  shows "save_bell_sound filename signal sample_rate w =
     (Inl OSError, w\<lparr>heap := heap w @ [Int16 (map (\<lambda>x. cast_int16 (cast_overflow w) (fmul x (Fin 32767))) xs)]\<rparr>)"
  using assms
  by (simp add: save_bell_sound_def np_int16_run wavfile_write_def print_def)

lemma save_bell_sound_keeps_heap:
  "take (length (heap w)) (heap (snd (save_bell_sound filename signal sample_rate w))) = heap w"
proof (cases "signal < length (heap w) \<and> (\<exists>xs. heap w ! signal = Float64 xs)")
  case True
  then obtain xs where "signal < length (heap w)" "heap w ! signal = Float64 xs" by blast
  then show ?thesis
    by (cases "filename \<in> unwritable w")
       (simp_all add: save_bell_sound_run save_bell_sound_oserror)
next
  case False
  then show ?thesis
    by (simp add: save_bell_sound_def np_int16_fail)
qed


subsection \<open>What \<^verbatim>\<open>generate_bell_tone\<close> returns\<close>

lemma returned_Inr:
  "a < length (heap w) \<Longrightarrow> heap w ! a = Float64 xs \<Longrightarrow> returned (Inr a, w) = Inr xs"
  by (simp add: returned_def np_float64_run)

lemma returned_shaped_signal:
  "returned (shaped_signal d f sr w) = shaped_result d f sr"
proof -
  let ?n = "py_int (real_of_int sr * d)" and ?a = "py_int (0.01 * real_of_int sr)"
  consider "?n < 0" | "0 \<le> ?n" "?a < 0" | "0 \<le> ?n" "0 \<le> ?a" "?n < ?a" "?a \<noteq> 1"
    | "?n = 0" "?a = 1" | "0 \<le> ?n" "0 \<le> ?a" "?a \<le> ?n"
    by linarith
  then show ?thesis
  proof cases
    case 1
    then show ?thesis
      by (simp add: shaped_signal_neg shaped_result_def)
  next
    case 2
    then show ?thesis
      by (simp add: shaped_signal_neg_attack shaped_result_def)
  next
    case 3
    then show ?thesis
      by (simp add: shaped_signal_fail shaped_result_def)
  next
    case 4
    then show ?thesis
      by (simp add: shaped_signal_one shaped_result_def returned_Inr nth_append
          shaped_values_def time_values_def linspace_values_def)
  next
    case 5
    then show ?thesis
      by (simp add: shaped_signal_run shaped_result_def returned_Inr nth_append)
  qed
qed






lemma tone_result_normalized:
  "shaped_result d f sr = Inr xs \<Longrightarrow> tone_result d f sr = normalized_values xs"
  by (simp add: tone_result_def)

lemma returned_generate_of_shaped:
  "returned (shaped_signal d f sr w) = Inr xs \<Longrightarrow>
   returned (generate_bell_tone d f sr w) = normalized_values xs"
  by (simp add: returned_generate_bell_tone returned_shaped_signal tone_result_normalized)

lemma normalized_values_Nil [simp]: "normalized_values [] = Inl ValueError_empty"
  by (simp add: normalized_values_def)

lemma fmax_zeros: "(fmax (Fin 0) ^^ k) (Fin 0) = Fin 0"
  by (induction k) simp_all

lemma normalized_values_zeros:
  "0 < n \<Longrightarrow> normalized_values (replicate n (Fin 0)) = Inr (replicate n NaN)"
  by (cases n) (simp_all add: normalized_values_def fmax_zeros)

lemma linspace_values_fin: "x \<in> set (linspace_values a b n) \<Longrightarrow> \<exists>r. x = Fin r"
  by (auto simp add: linspace_values_def split: if_splits)

lemma time_values_fin: "x \<in> set (time_values d sr) \<Longrightarrow> \<exists>t. x = Fin t"
  by (simp add: time_values_def linspace_values_fin)

lemma set_ramp:
  "x \<in> set (ramp a xs) \<Longrightarrow>
   x \<in> set xs \<or> (\<exists>y\<in>set xs. \<exists>e\<in>set (linspace_values 0 1 a). x = fmul y e)"
  by (auto simp add: ramp_def dest: set_zip_leftD set_zip_rightD in_set_takeD in_set_dropD)


lemma decay_at_fin: "d \<noteq> 0 \<Longrightarrow> decay_at d (Fin t) = Fin (exp (- 3 * t / d))"
  by (simp add: decay_at_def)



subsection \<open>Finite samples and the peak\<close>

lemma sin_45: "sin (45 * pi / 2) = 1"
proof -
  have "45 * pi / 2 = pi / 2 + 22 * pi" by simp
  then have "sin (45 * pi / 2) = sin (pi / 2 + 22 * pi)" by simp
  also have "\<dots> = 1" by (simp only: sin_add) simp
  finally show ?thesis .
qed

lemma bell_sum_fin: "\<exists>r. bell_sum f (Fin t) = Fin r"
  by (simp add: bell_sum_def partial_def)

lemma shaped_values_fin:
  assumes "d \<noteq> 0" and "x \<in> set (shaped_values d f sr)"
  shows "\<exists>r. x = Fin r"
proof -
  let ?xs = "map (\<lambda>\<tau>. fmul (bell_sum f \<tau>) (decay_at d \<tau>)) (time_values d sr)"
  have z: "\<exists>r. y = Fin r" if "y \<in> set ?xs" for y
  proof -
    from that obtain \<tau> where "\<tau> \<in> set (time_values d sr)"
      and y: "y = fmul (bell_sum f \<tau>) (decay_at d \<tau>)" by auto
    then obtain t where t: "\<tau> = Fin t" using time_values_fin by blast
    obtain b where "bell_sum f (Fin t) = Fin b" using bell_sum_fin by blast
    with y t assms(1) show ?thesis
      by (simp add: decay_at_fin)
  qed
  from assms(2) have "x \<in> set (ramp (nat (py_int (0.01 * real_of_int sr))) ?xs)"
    by (simp add: shaped_values_def)
  from set_ramp [OF this] show ?thesis
  proof
    assume "x \<in> set ?xs"
    then show ?thesis by (rule z)
  next
    assume "\<exists>y\<in>set ?xs. \<exists>e\<in>set (linspace_values 0 1 (nat (py_int (0.01 * real_of_int sr)))).
        x = fmul y e"
    then obtain y e where "y \<in> set ?xs"
      and e: "e \<in> set (linspace_values 0 1 (nat (py_int (0.01 * real_of_int sr))))"
      and x: "x = fmul y e" by blast
    from z [OF this(1)] obtain r where "y = Fin r" by blast
    moreover from e obtain q where "e = Fin q" using linspace_values_fin by blast
    ultimately show ?thesis using x by simp
  qed
qed

lemma fold_fmax_fin: "fold fmax (map Fin rs) (Fin r) = Fin (fold max rs r)"
  by (induction rs arbitrary: r) (simp_all add: max.commute)

lemma np_amax_fin: "rs \<noteq> [] \<Longrightarrow> np_amax (map Fin rs) = Inr (Fin (Max (set rs)))"
  by (cases rs) (simp_all add: fold_fmax_fin Max.set_eq_fold [symmetric])

lemma map_fabs_fin: "map fabs (map Fin rs) = map Fin (map abs rs)"
  by simp

lemma peak_fin:
  fixes rs :: "real list"
  assumes "rs \<noteq> []"
  shows "np_amax (map fabs (map Fin rs)) = Inr (Fin (Max (abs ` set rs)))"
proof -
  have "map abs rs \<noteq> []"
    using assms by simp
  then have "np_amax (map Fin (map abs rs)) = Inr (Fin (Max (set (map abs rs))))"
    by (rule np_amax_fin)
  then show ?thesis
    by (simp only: map_fabs_fin set_map)
qed

lemma normalized_values_fin:
  fixes rs :: "real list"
  assumes "rs \<noteq> []" and "Max (abs ` set rs) \<noteq> 0"
  shows "normalized_values (map Fin rs) =
     Inr (map (\<lambda>r. Fin (r / Max (abs ` set rs) * 0.8)) rs)"
proof -
  have "normalized_values (map Fin rs) =
      Inr (map (\<lambda>x. fmul (fdiv x (Fin (Max (abs ` set rs)))) (Fin 0.8)) (map Fin rs))"
    by (simp only: normalized_values_def peak_fin [OF assms(1)] sum.case)
  also have "\<dots> = Inr (map (\<lambda>r. Fin (r / Max (abs ` set rs) * 0.8)) rs)"
    using assms(2) by simp
  finally show ?thesis .
qed

lemma peak_positive:
  fixes rs :: "real list"
  assumes "r \<in> set rs" and "r \<noteq> 0"
  shows "0 < Max (abs ` set rs)"
proof -
  have "\<bar>r\<bar> \<le> Max (abs ` set rs)"
    using assms(1) by simp
  with assms(2) show ?thesis by simp
qed




lemma linspace_values_first: "0 < n \<Longrightarrow> linspace_values 0 b n ! 0 = Fin 0"
  by (simp add: linspace_values_def)

lemma bell_sum_at_zero: "bell_sum f (Fin 0) = Fin 0"
  by (simp add: bell_sum_def partial_def)

lemma ramp_first:
  assumes "xs \<noteq> []" and "xs ! 0 = Fin 0"
  shows "ramp a xs ! 0 = Fin 0"
proof (cases a)
  case 0
  with assms(2) show ?thesis by (simp add: ramp_def)
next
  case (Suc k)
  let ?zs = "map2 fmul (take a xs) (linspace_values 0 1 a)"
  have l: "0 < length ?zs"
    using assms(1) Suc by simp
  then have "ramp a xs ! 0 = ?zs ! 0"
    by (simp add: ramp_def nth_append)
  also have "\<dots> = fmul (take a xs ! 0) (linspace_values 0 1 a ! 0)"
    using l by simp
  also have "\<dots> = Fin 0"
    using assms Suc by (simp add: linspace_values_first)
  finally show ?thesis .
qed

lemma shaped_values_first:
  assumes "d \<noteq> 0" and "shaped_values d f sr \<noteq> []"
  shows "shaped_values d f sr ! 0 = Fin 0"
proof -
  let ?xs = "map (\<lambda>\<tau>. fmul (bell_sum f \<tau>) (decay_at d \<tau>)) (time_values d sr)"
  have n: "0 < nat (py_int (real_of_int sr * d))"
    using assms(2) length_shaped_values [of d f sr] by (cases "shaped_values d f sr") auto
  then have "time_values d sr ! 0 = Fin 0"
    by (simp add: time_values_def linspace_values_first)
  with n assms(1) have z: "?xs ! 0 = Fin 0"
    by (simp add: bell_sum_at_zero decay_at_fin)
  have "length ?xs \<noteq> 0"
    using n by simp
  then have "?xs \<noteq> []"
    by (simp only: length_0_conv not_False_eq_True)
  from ramp_first [OF this z] show ?thesis
    by (simp only: shaped_values_def)
qed

lemma shaped_result_long:
  assumes "0.01 \<le> d" and "0 < sr"
  shows "shaped_result d f sr = Inr (shaped_values d f sr)"
proof -
  have "0.01 * real_of_int sr \<le> real_of_int sr * d"
    using assms by (simp add: mult.commute)
  moreover have "0 \<le> 0.01 * real_of_int sr"
    using assms(2) by simp
  ultimately have "0 \<le> py_int (0.01 * real_of_int sr)"
    and "py_int (0.01 * real_of_int sr) \<le> py_int (real_of_int sr * d)"
    by (simp_all add: py_int_def floor_mono)
  then show ?thesis
    by (simp add: shaped_result_def)
qed

lemma normalized_shaped_values:
  assumes "d \<noteq> 0" and "\<exists>x\<in>set (shaped_values d f sr). x \<noteq> Fin 0"
  shows "\<exists>rs. shaped_values d f sr = map Fin rs \<and> rs \<noteq> [] \<and> 0 < Max (abs ` set rs) \<and>
     normalized_values (shaped_values d f sr) =
       Inr (map Fin (map (\<lambda>r. r / Max (abs ` set rs) * 0.8) rs))"
proof -
  have "\<forall>x\<in>set (shaped_values d f sr). \<exists>r. x = Fin r"
    using shaped_values_fin [OF assms(1)] by blast
  then obtain rs where rs: "shaped_values d f sr = map Fin rs"
    by (auto simp add: ex_map_conv [symmetric])
  with assms(2) obtain r where r: "r \<in> set rs" "r \<noteq> 0"
    by auto
  then have ne: "rs \<noteq> []" by auto
  have pos: "0 < Max (abs ` set rs)"
    using r by (rule peak_positive)
  then have "normalized_values (map Fin rs) =
      Inr (map (\<lambda>r. Fin (r / Max (abs ` set rs) * 0.8)) rs)"
    using normalized_values_fin [OF ne] by simp
  with rs ne pos show ?thesis
    by (auto simp add: comp_def)
qed


lemma shaped_values_example2:
  "shaped_values 2 (5/4) 1 = [Fin 0, Fin (exp (- 3) / 5)]"
proof -
  have "time_values 2 1 = [Fin 0, Fin 2]"
    by (simp add: time_values_def linspace_values_def py_int_def upt_rec)
  moreover have "bell_sum (5/4) (Fin 2) = Fin (1/5)"
    by (simp add: bell_sum_def partial_def sin_45)
  ultimately show ?thesis
    by (simp add: shaped_values_def ramp_def py_int_def linspace_values_def decay_at_def
        bell_sum_at_zero)
qed

subsection \<open>The notebook variant\<close>

lemma explore_harmonics_run:
  assumes "0 \<le> py_int (real_of_int sr * d)"
  shows "explore_harmonics d f sr w =
     (Inr (length (heap w), Suc (length (heap w))),
      w\<lparr>heap := heap w @ [Float64 (time_values d sr),
           Float64 (map (\<lambda>\<tau>. add_partials (spec_low_partials f) f \<tau> (explore_sum f \<tau>))
             (time_values d sr))]\<rparr>)"
proof (cases "f < 400")
  case True
  with assms show ?thesis
    by (simp add: explore_harmonics_def np_linspace_run np_map_run np_inplace_run nth_append
        map2_map_same explore_sum_def [abs_def] list_update_append time_values_def
        spec_low_partials_def add_partials_def)
next
  case False
  with assms show ?thesis
    by (simp add: explore_harmonics_def np_linspace_run np_map_run np_inplace_run nth_append
        map2_map_same explore_sum_def [abs_def] list_update_append time_values_def
        spec_low_partials_def add_partials_def)
qed

section \<open>The claims\<close>

subsection \<open>C1: the peak of the buffer\<close>



subsection \<open>C2: the length of the buffer\<close>




subsection \<open>C3: invalid parameters\<close>




subsection \<open>C4: a signal that is zero everywhere\<close>

text \<open>
  C4 as the specification states it: a buffer that is zero everywhere before the
  normalisation makes \<^verbatim>\<open>generate_bell_tone\<close> fail with an error. The code has no such
  guard. One second at 1 Hz sample rate is the single sample at time 0, which is zero,
  and the call returns the buffer \<open>[nan]\<close>.
\<close>

theorem generate_bell_tone_zero_signal_nan:
  "returned (shaped_signal 1 440 1 (empty_world (\<lambda>x. 0))) = Inr [Fin 0] \<and>
   returned (generate_bell_tone 1 440 1 (empty_world (\<lambda>x. 0))) = Inr [NaN]"
  by (simp add: returned_generate_bell_tone returned_shaped_signal tone_result_def
      shaped_result_def py_int_def shaped_values_def time_values_def linspace_values_def
      ramp_def bell_sum_def partial_def decay_at_def normalized_values_def)

text \<open>
  C4, amended: when the signal before the normalisation has at least one sample and is
  zero everywhere, \<^verbatim>\<open>generate_bell_tone\<close> raises nothing: it divides zero by zero and
  returns a buffer of the same length with \<open>nan\<close> in every sample.
\<close>

theorem generate_bell_tone_zero_signal:
  assumes "returned (shaped_signal duration_sec frequency sample_rate w) = Inr sig"
    and "sig \<noteq> []" and "\<forall>x\<in>set sig. x = Fin 0"
  shows "returned (generate_bell_tone duration_sec frequency sample_rate w) =
     Inr (replicate (length sig) NaN)"
proof -
  have "sig = replicate (length sig) (Fin 0)"
    using assms(3) by (simp add: replicate_length_same)
  moreover have "0 < length sig"
    using assms(2) by simp
  ultimately have "normalized_values sig = Inr (replicate (length sig) NaN)"
    using normalized_values_zeros [of "length sig"] by simp
  with assms(1) show ?thesis
    by (simp add: returned_generate_of_shaped)
qed

theorem generate_bell_tone_zero_signal_witness:
  "returned (shaped_signal 0.5 440 2 demo_world) = Inr [Fin 0] \<and>
   returned (generate_bell_tone 0.5 440 2 demo_world) = Inr [NaN]"
proof -
  have s: "returned (shaped_signal 0.5 440 2 demo_world) = Inr [Fin 0]"
    by (simp add: returned_shaped_signal
      shaped_result_def py_int_def shaped_values_def time_values_def linspace_values_def
      ramp_def bell_sum_def partial_def decay_at_def)
  have "[Fin 0] \<noteq> []" and "\<forall>x\<in>set [Fin 0]. x = Fin 0"
    by simp_all
  from generate_bell_tone_zero_signal [OF s this] s show ?thesis
    by simp
qed

subsection \<open>C5: the quantisation of \<^verbatim>\<open>save_bell_sound\<close>\<close>




subsection \<open>C6: a duration shorter than the attack\<close>




subsection \<open>C7: the first sample\<close>

text \<open>
  C7: for valid arguments with a duration of at least 10 ms the envelopes succeed, and
  when the signal they leave is not zero everywhere the buffer that
  \<^verbatim>\<open>generate_bell_tone\<close> returns starts with the sample 0.
\<close>

theorem generate_bell_tone_first_sample:
  assumes "0.01 \<le> duration_sec" and "0 < frequency" and "0 < sample_rate"
  shows "\<exists>sig. returned (shaped_signal duration_sec frequency sample_rate w) = Inr sig \<and>
     ((\<exists>x\<in>set sig. x \<noteq> Fin 0) \<longrightarrow>
       (\<exists>buf. returned (generate_bell_tone duration_sec frequency sample_rate w) = Inr buf \<and>
          buf \<noteq> [] \<and> buf ! 0 = Fin 0))"
proof -
  let ?sig = "shaped_values duration_sec frequency sample_rate"
  have s: "returned (shaped_signal duration_sec frequency sample_rate w) = Inr ?sig"
    using assms(1,3) by (simp add: returned_shaped_signal shaped_result_long)
  have d: "duration_sec \<noteq> 0"
    using assms(1) by auto
  have "\<exists>buf. returned (generate_bell_tone duration_sec frequency sample_rate w) = Inr buf \<and>
      buf \<noteq> [] \<and> buf ! 0 = Fin 0"
    if nz: "\<exists>x\<in>set ?sig. x \<noteq> Fin 0"
  proof -
    from normalized_shaped_values [OF d nz]
    obtain rs where rs: "?sig = map Fin rs" and ne: "rs \<noteq> []"
      and pos: "0 < Max (abs ` set rs)"
      and n: "normalized_values ?sig = Inr (map Fin (map (\<lambda>r. r / Max (abs ` set rs) * 0.8) rs))"
      by auto
    let ?buf = "map Fin (map (\<lambda>r. r / Max (abs ` set rs) * 0.8) rs)"
    have "?sig \<noteq> []"
      using rs ne by simp
    from shaped_values_first [OF d this] rs ne have "rs ! 0 = 0"
      by simp
    with ne have "?buf ! 0 = Fin 0"
      by simp
    moreover have "?buf \<noteq> []"
      using ne by simp
    moreover have "returned (generate_bell_tone duration_sec frequency sample_rate w) = Inr ?buf"
      using s n by (simp add: returned_generate_of_shaped)
    ultimately show ?thesis
      by blast
  qed
  with s show ?thesis
    by blast
qed

theorem generate_bell_tone_first_sample_witness:
  "(0.01 :: real) \<le> 2 \<and> (0 :: real) < 5 / 4 \<and> (0 :: int) < 1 \<and>
   returned (shaped_signal 2 (5/4) 1 demo_world) = Inr [Fin 0, Fin (exp (- 3) / 5)] \<and>
   (\<exists>buf. returned (generate_bell_tone 2 (5/4) 1 demo_world) = Inr buf \<and>
      buf \<noteq> [] \<and> buf ! 0 = Fin 0)"
proof -
  have v: "(0.01 :: real) \<le> 2" "(0 :: real) < 5 / 4" "(0 :: int) < 1"
    by simp_all
  have s: "returned (shaped_signal 2 (5/4) 1 demo_world) = Inr [Fin 0, Fin (exp (- 3) / 5)]"
    by (simp add: returned_shaped_signal shaped_result_def py_int_def shaped_values_example2)
  have z: "\<exists>x\<in>set [Fin 0, Fin (exp (- 3) / 5)]. x \<noteq> Fin 0"
    by simp
  from generate_bell_tone_first_sample [OF v, of demo_world] s z
  have "\<exists>buf. returned (generate_bell_tone 2 (5/4) 1 demo_world) = Inr buf \<and>
      buf \<noteq> [] \<and> buf ! 0 = Fin 0"
    by auto
  with v s show ?thesis
    by blast
qed

subsection \<open>C8: determinism\<close>

text \<open>
  C8: \<^verbatim>\<open>generate_bell_tone\<close> is deterministic and free of side effects. Two calls with
  the same arguments, in any two worlds, hand the same result to their callers (the same
  error, or buffers with the same samples); and a call leaves the arrays that existed,
  the files and the standard output as they were: it only allocates arrays.
\<close>

theorem generate_bell_tone_deterministic:
  "returned (generate_bell_tone duration_sec frequency sample_rate w1) =
     returned (generate_bell_tone duration_sec frequency sample_rate w2) \<and>
   untouched w1 (snd (generate_bell_tone duration_sec frequency sample_rate w1))"
  by (simp add: returned_generate_bell_tone generate_bell_tone_untouched)

theorem generate_bell_tone_deterministic_witness:
  "returned (generate_bell_tone 1.5 440 44100 demo_world) =
     returned (generate_bell_tone 1.5 440 44100 (empty_world (\<lambda>x. 0))) \<and>
   untouched demo_world (snd (generate_bell_tone 1.5 440 44100 demo_world))"
  by (rule generate_bell_tone_deterministic)

subsection \<open>C9: the partials of the low register\<close>

text \<open>
  C9: in the notebook's \<^verbatim>\<open>generate_bell_tone\<close>, once the time array exists, the harmonic
  sum that lines 44 to 55 build in \<open>signal\<close> is the sum of the five partials plus the
  partials of the specification's table: the three partials with the weights 0.05, 0.025,
  0.05 at 4, 6 and 8.5 times the fundamental when the frequency is below 400 Hz, and no
  partial when it is 400 Hz or more.
\<close>

theorem explore_harmonics_low_partials:
  assumes "0 \<le> py_int (real_of_int sample_rate * duration_sec)"
  shows "\<exists>t signal w'.
     explore_harmonics duration_sec frequency sample_rate w = (Inr (t, signal), w') \<and>
     signal < length (heap w') \<and>
     heap w' ! signal =
       Float64 (map (\<lambda>\<tau>. add_partials (spec_low_partials frequency) frequency \<tau>
                         (explore_sum frequency \<tau>))
                  (time_values duration_sec sample_rate))"
  using assms by (simp add: explore_harmonics_run nth_append)

theorem explore_harmonics_low_partials_witness:
  "0 \<le> py_int (real_of_int 2 * 1) \<and>
   (\<exists>t signal w'.
      explore_harmonics 1 200 2 demo_world = (Inr (t, signal), w') \<and>
      signal < length (heap w') \<and>
      heap w' ! signal =
        Float64 (map (\<lambda>\<tau>. fadd (fadd (fadd (explore_sum 200 \<tau>)
                            (partial 0.05 (200 * 4) \<tau>))
                            (partial 0.025 (200 * 6) \<tau>))
                            (partial 0.05 (200 * 8.5) \<tau>))
                   [Fin 0, Fin 1])) \<and>
   (\<exists>t signal w'.
      explore_harmonics 1 440 2 demo_world = (Inr (t, signal), w') \<and>
      signal < length (heap w') \<and>
      heap w' ! signal = Float64 (map (explore_sum 440) [Fin 0, Fin 1]))"
proof -
  have n: "0 \<le> py_int (real_of_int 2 * 1)"
    by (simp add: py_int_def)
  have tv: "time_values 1 2 = [Fin 0, Fin 1]"
    by (simp add: time_values_def linspace_values_def py_int_def upt_rec)
  have low: "spec_low_partials 200 = [(0.05, 4), (0.025, 6), (0.05, 8.5)]"
    and high: "spec_low_partials 440 = []"
    by (simp_all add: spec_low_partials_def)
  from explore_harmonics_low_partials [OF n, of 200 demo_world]
  have "\<exists>t signal w'.
      explore_harmonics 1 200 2 demo_world = (Inr (t, signal), w') \<and>
      signal < length (heap w') \<and>
      heap w' ! signal =
        Float64 (map (\<lambda>\<tau>. fadd (fadd (fadd (explore_sum 200 \<tau>)
                            (partial 0.05 (200 * 4) \<tau>))
                            (partial 0.025 (200 * 6) \<tau>))
                            (partial 0.05 (200 * 8.5) \<tau>))
                   [Fin 0, Fin 1])"
    by (simp add: tv low add_partials_def)
  moreover from explore_harmonics_low_partials [OF n, of 440 demo_world]
  have "\<exists>t signal w'.
      explore_harmonics 1 440 2 demo_world = (Inr (t, signal), w') \<and>
      signal < length (heap w') \<and>
      heap w' ! signal = Float64 (map (explore_sum 440) [Fin 0, Fin 1])"
    by (simp add: tv high add_partials_def)
  ultimately show ?thesis
    using n by blast
qed

subsection \<open>C10: \<^verbatim>\<open>save_bell_sound\<close> leaves its input buffer unchanged\<close>

text \<open>
  C10: the quantisation of \<^verbatim>\<open>save_bell_sound\<close> allocates a new array, so the caller's
  buffer holds the same samples after the call as before it, whether the call returns or
  raises.
\<close>

theorem save_bell_sound_frame:
  assumes "signal < length (heap w)" and "heap w ! signal = Float64 xs"
  shows "heap (snd (save_bell_sound filename signal sample_rate w)) ! signal = Float64 xs"
proof -
  let ?h = "heap (snd (save_bell_sound filename signal sample_rate w))"
  have "take (length (heap w)) ?h ! signal = ?h ! signal"
    using assms(1) by simp
  then show ?thesis
    using assms(2) by (simp add: save_bell_sound_keeps_heap)
qed

theorem save_bell_sound_frame_witness:
  "0 < length (heap demo_world) \<and>
   heap demo_world ! 0 = Float64 [Fin 1, Fin 0.5, Fin (- 0.8)] \<and>
   heap (snd (save_bell_sound ''bell.wav'' 0 44100 demo_world)) ! 0
     = Float64 [Fin 1, Fin 0.5, Fin (- 0.8)]"
proof -
  have h1: "0 < length (heap demo_world)"
    and h2: "heap demo_world ! 0 = Float64 [Fin 1, Fin 0.5, Fin (- 0.8)]"
    by (simp_all add: demo_world_def empty_world_def)
  from save_bell_sound_frame [OF h1 h2] h1 h2 show ?thesis
    by blast
qed

end
